theory Spec2Isabelle
  imports Complex_Main
begin

section \<open>Strings as Python uses them in the scoring core\<close>

text \<open>
  Texts are \<^typ>\<open>string\<close>, one \<^typ>\<open>char\<close> per character. \<open>str.lower()\<close> is modelled on
  the ASCII letters, every other character is left as it is.
\<close>

definition lower_char :: "char \<Rightarrow> char" where
  "lower_char c =
     (case map_of (zip ''ABCDEFGHIJKLMNOPQRSTUVWXYZ'' ''abcdefghijklmnopqrstuvwxyz'') c of
        None \<Rightarrow> c
      | Some d \<Rightarrow> d)"

definition lower :: "string \<Rightarrow> string" where
  "lower s = map lower_char s"

text \<open>\<open>needle in hay\<close> on Python strings: \<open>needle\<close> occurs as a contiguous block.\<close>

fun starts_with :: "string \<Rightarrow> string \<Rightarrow> bool" where
  "starts_with hay [] = True"
| "starts_with [] (n # ns) = False"
| "starts_with (h # hs) (n # ns) = (h = n \<and> starts_with hs ns)"

fun contains :: "string \<Rightarrow> string \<Rightarrow> bool" where
  "contains [] needle = (needle = [])"
| "contains (h # hs) needle = (starts_with (h # hs) needle \<or> contains hs needle)"

text \<open>Truthiness of an \<open>Optional[str]\<close>: \<open>None\<close> and the empty string are false.\<close>

definition truthy :: "string option \<Rightarrow> bool" where
  "truthy s = (case s of None \<Rightarrow> False | Some t \<Rightarrow> t \<noteq> [])"

text \<open>\<open>not s\<close> on an \<open>Optional[str]\<close>.\<close>

definition falsy :: "string option \<Rightarrow> bool" where
  "falsy s = (case s of None \<Rightarrow> True | Some t \<Rightarrow> t = [])"

text \<open>The text of a field already tested for truthiness.\<close>

definition text_of :: "string option \<Rightarrow> string" where
  "text_of s = (case s of None \<Rightarrow> [] | Some t \<Rightarrow> t)"

text \<open>\<open>str(n)\<close> for a count, as the f-strings of the reasoning texts print it.\<close>

definition digit_char :: "nat \<Rightarrow> char" where
  "digit_char d = ''0123456789'' ! d"

function str_nat :: "nat \<Rightarrow> string" where
  "str_nat n = (if n < 10 then [digit_char n] else str_nat (n div 10) @ [digit_char (n mod 10)])"
  by pat_completeness auto
termination
  by (relation "measure id") auto

declare str_nat.simps [simp del]

section \<open>Data model (data/schemas.py, portfolio\_rag\_scraper.py)\<close>

text \<open>
  Only the fields the scoring core reads are kept. Several classes have fields of one
  name, so every field carries a prefix for its class: \<open>c_\<close> for \<open>CompanyProfile\<close>,
  \<open>f_\<close> for \<open>FounderProfile\<close>, \<open>vc_\<close> for \<open>VCProfile\<close>, \<open>pc_\<close> for
  \<open>PortfolioCompany\<close>. Scores are Python floats; they are modelled as exact reals.
\<close>

record CompanyProfile =
  c_name :: string
  c_description :: "string option"
  c_industry :: "string option"
  c_location :: "string option"
  c_founded_year :: "int option"
  c_funding_stage :: "string option"

record FounderProfile =
  f_name :: string
  f_title :: "string option"
  f_experience :: "string option"
  f_education :: "string option"
  f_linkedin_connections :: "int option"
  f_endorsements :: "int option"

record VCProfile =
  vc_name :: string
  vc_investment_thesis :: "string option"
  vc_focus_areas :: "string list"
  vc_investment_stages :: "string list"
  vc_portfolio_companies :: "string list"
  vc_geographic_focus :: "string list"

text \<open>
  \<open>PortfolioCompany\<close> is a plain dataclass: its \<open>industry\<close> and \<open>description\<close> are
  annotated \<open>str\<close> but nothing validates them, and the conflict detector tests them for
  truthiness, so they are optional here.
\<close>

record PortfolioCompany =
  pc_name :: string
  pc_industry :: "string option"
  pc_description :: "string option"

text \<open>The two fixed-shape dicts attached to a startup by the pipeline.\<close>

record Conflicts =
  has_conflicts :: bool
  conflict_companies :: "string list"
  conflict_types :: "string list"
  severity :: string

record PortfolioFit =
  portfolio_fit_score :: real
  reasoning :: "string list"

record StartupProfile =
  company :: CompanyProfile
  founders :: "FounderProfile list"
  quality_score :: "real option"
  portfolio_conflicts :: "Conflicts option"
  portfolio_fit :: "PortfolioFit option"

section \<open>Portfolio fit estimator (\<open>_calculate_portfolio_fit\<close>)\<close>

text \<open>
  The loop \<open>industry_counts[industry] = industry_counts.get(industry, 0) + 1\<close> over the
  industries of the resolved portfolio list. Keys are compared as they are (no case
  folding); \<open>None\<close> is a key like any other.
\<close>

fun count_industries ::
  "(string option \<rightharpoonup> nat) \<Rightarrow> string option list \<Rightarrow> (string option \<rightharpoonup> nat)" where
  "count_industries industry_counts [] = industry_counts"
| "count_industries industry_counts (industry # rest) =
     count_industries
       (industry_counts(industry \<mapsto> (case industry_counts industry of None \<Rightarrow> 0 | Some c \<Rightarrow> c) + 1))
       rest"

definition calculate_portfolio_fit :: "StartupProfile \<Rightarrow> PortfolioCompany list \<Rightarrow> PortfolioFit" where
  "calculate_portfolio_fit startup portfolio_companies =
     (if portfolio_companies = [] then
        \<lparr>portfolio_fit_score = 50, reasoning = [''No portfolio data available'']\<rparr>
      else
        (let industry_counts = count_industries Map.empty (map pc_industry portfolio_companies);
             startup_industry = c_industry (company startup)
         in case industry_counts startup_industry of
              None \<Rightarrow>
                \<lparr>portfolio_fit_score = 75, reasoning = [''New industry for portfolio'']\<rparr>
            | Some count \<Rightarrow>
                if count > 5 then
                  \<lparr>portfolio_fit_score = 30,
                   reasoning = [''Industry over-represented ('' @ str_nat count @ '' companies)'']\<rparr>
                else if count > 2 then
                  \<lparr>portfolio_fit_score = 50,
                   reasoning = [''Industry well-represented ('' @ str_nat count @ '' companies)'']\<rparr>
                else
                  \<lparr>portfolio_fit_score = 65,
                   reasoning = [''Industry under-represented ('' @ str_nat count @ '' companies)'']\<rparr>))"

text \<open>The number of portfolio companies whose industry is the given one.\<close>

definition industry_occurrences :: "string option \<Rightarrow> PortfolioCompany list \<Rightarrow> nat" where
  "industry_occurrences i portfolio_companies =
     length (filter (\<lambda>pc. pc_industry pc = i) portfolio_companies)"

section \<open>Portfolio conflict detector (\<open>_detect_portfolio_conflicts\<close>)\<close>

text \<open>
  \<open>_calculate_similarity\<close> is \<open>difflib.SequenceMatcher(None, a, b).ratio()\<close>, a library
  function: it is a parameter of the model. The resolved portfolio list (what
  \<open>_get_portfolio_companies\<close> returns) is a parameter too.
\<close>

type_synonym similarity = "string \<Rightarrow> string \<Rightarrow> real"

text \<open>The three conditions tested for each portfolio company, in the order of the source.\<close>

definition name_similar :: "similarity \<Rightarrow> StartupProfile \<Rightarrow> PortfolioCompany \<Rightarrow> bool" where
  "name_similar calculate_similarity startup pc =
     (calculate_similarity (lower (c_name (company startup))) (lower (pc_name pc)) > 0.7)"

definition industry_conflict :: "StartupProfile \<Rightarrow> PortfolioCompany \<Rightarrow> bool" where
  "industry_conflict startup pc =
     (case (c_industry (company startup), pc_industry pc) of
        (Some a, Some b) \<Rightarrow> a \<noteq> [] \<and> b \<noteq> [] \<and> lower a = lower b
      | _ \<Rightarrow> False)"

definition description_similar :: "similarity \<Rightarrow> StartupProfile \<Rightarrow> PortfolioCompany \<Rightarrow> bool" where
  "description_similar calculate_similarity startup pc =
     (case (c_description (company startup), pc_description pc) of
        (Some a, Some b) \<Rightarrow> a \<noteq> [] \<and> b \<noteq> [] \<and> calculate_similarity (lower a) (lower b) > 0.6
      | _ \<Rightarrow> False)"

definition add_conflict :: "Conflicts \<Rightarrow> string \<Rightarrow> string \<Rightarrow> Conflicts" where
  "add_conflict conflicts nm ty =
     conflicts\<lparr>has_conflicts := True,
               conflict_companies := conflict_companies conflicts @ [nm],
               conflict_types := conflict_types conflicts @ [ty]\<rparr>"

text \<open>One pass of the loop body: three independent \<open>if\<close>s, each appending on its own.\<close>

definition check_portfolio_company ::
  "similarity \<Rightarrow> StartupProfile \<Rightarrow> Conflicts \<Rightarrow> PortfolioCompany \<Rightarrow> Conflicts" where
  "check_portfolio_company calculate_similarity startup conflicts pc =
     (let c1 = (if name_similar calculate_similarity startup pc
                then add_conflict conflicts (pc_name pc) ''name_similarity'' else conflicts);
          c2 = (if industry_conflict startup pc
                then add_conflict c1 (pc_name pc) ''industry_conflict'' else c1);
          c3 = (if description_similar calculate_similarity startup pc
                then add_conflict c2 (pc_name pc) ''business_model_conflict'' else c2)
      in c3)"

fun conflicts_loop ::
  "similarity \<Rightarrow> StartupProfile \<Rightarrow> Conflicts \<Rightarrow> PortfolioCompany list \<Rightarrow> Conflicts" where
  "conflicts_loop calculate_similarity startup conflicts [] = conflicts"
| "conflicts_loop calculate_similarity startup conflicts (pc # rest) =
     conflicts_loop calculate_similarity startup
       (check_portfolio_company calculate_similarity startup conflicts pc) rest"

definition detect_portfolio_conflicts ::
  "similarity \<Rightarrow> StartupProfile \<Rightarrow> PortfolioCompany list \<Rightarrow> Conflicts" where
  "detect_portfolio_conflicts calculate_similarity startup portfolio_companies =
     (let conflicts =
            conflicts_loop calculate_similarity startup
              \<lparr>has_conflicts = False, conflict_companies = [], conflict_types = [],
               severity = ''none''\<rparr>
              portfolio_companies
      in if length (conflict_companies conflicts) > 2 then conflicts\<lparr>severity := ''high''\<rparr>
         else if length (conflict_companies conflicts) > 0 then conflicts\<lparr>severity := ''medium''\<rparr>
         else conflicts)"

text \<open>
  The conflict types one portfolio company triggers, in the order the rules are tested.
  This is the reference the loop is compared with.
\<close>

definition triggered_rules ::
  "similarity \<Rightarrow> StartupProfile \<Rightarrow> PortfolioCompany \<Rightarrow> string list" where
  "triggered_rules calculate_similarity startup pc =
     (if name_similar calculate_similarity startup pc then [''name_similarity''] else []) @
     (if industry_conflict startup pc then [''industry_conflict''] else []) @
     (if description_similar calculate_similarity startup pc then [''business_model_conflict''] else [])"

section \<open>Quality scorer (metrics/quality\_scorer.py)\<close>

text \<open>
  The keyword tables of \<open>QualityScorer.__init__\<close>. The two sets are iterated only to add a
  fixed number of points per member found, so their iteration order does not matter.
\<close>

definition prestigious_companies :: "string list" where
  "prestigious_companies =
     [''google'', ''facebook'', ''meta'', ''amazon'', ''apple'', ''microsoft'', ''netflix'',
      ''uber'', ''airbnb'', ''stripe'', ''square'', ''palantir'', ''tesla'', ''spacex'',
      ''linkedin'', ''twitter'', ''snapchat'', ''instagram'', ''whatsapp'', ''zoom'',
      ''salesforce'', ''oracle'', ''adobe'', ''intel'', ''nvidia'', ''amd'', ''cisco'',
      ''goldman sachs'', ''mckinsey'', ''bain'', ''bcg'', ''deloitte'', ''pwc'']"

definition prestigious_universities :: "string list" where
  "prestigious_universities =
     [''stanford'', ''harvard'', ''mit'', ''berkeley'', ''caltech'', ''princeton'',
      ''yale'', ''columbia'', ''upenn'', ''cornell'', ''brown'', ''dartmouth'',
      ''duke'', ''northwestern'', ''chicago'', ''nyu'', ''usc'', ''ucla'', ''ucsd'',
      ''oxford'', ''cambridge'', ''imperial'', ''lse'', ''eth zurich'', ''tsinghua'']"

definition prestigious_honors :: "(string \<times> real) list" where
  "prestigious_honors =
     [(''rhodes scholar'', 25), (''marshall scholar'', 25), (''fulbright scholar'', 20),
      (''gates cambridge'', 20), (''truman scholar'', 18), (''goldwater scholar'', 15),
      (''churchill scholar'', 20), (''mitchell scholar'', 18), (''schwarzman scholar'', 20),
      (''knight-hennessy'', 25), (''neuroscience scholar'', 15), (''neo scholar'', 20),
      (''y combinator'', 30), (''y combinator alumni'', 25), (''techstars'', 15),
      (''500 startups'', 12), (''startup chile'', 10), (''masschallenge'', 8),
      (''founder institute'', 5),
      (''rise fellow'', 25), (''kleiner perkins fellow'', 25), (''kp fellow'', 25),
      (''greylock fellow'', 25), (''sequoia scout'', 20), (''first round fellow'', 20),
      (''andreessen horowitz scout'', 20), (''a16z scout'', 20), (''thiel fellow'', 30),
      (''thiel fellowship'', 30), (''forbes 30 under 30'', 20), (''fortune 40 under 40'', 18),
      (''inc 30 under 30'', 15),
      (''turing award'', 50), (''nobel prize'', 50), (''macarthur fellow'', 35),
      (''macarthur genius'', 35), (''sloan fellow'', 25), (''packard fellow'', 25),
      (''guggenheim fellow'', 20), (''national science foundation'', 15),
      (''nsf graduate fellow'', 15), (''nsf postdoc'', 12),
      (''google science fair'', 15), (''intel isef'', 12), (''regeneron sts'', 15),
      (''davidson fellow'', 15), (''google code-in'', 8), (''google summer of code'', 8),
      (''facebook hackathon'', 5), (''microsoft imagine cup'', 8),
      (''west point'', 20), (''naval academy'', 20), (''air force academy'', 20),
      (''coast guard academy'', 18), (''merchant marine academy'', 15),
      (''white house fellow'', 25), (''presidential innovation fellow'', 20),
      (''google apm'', 20), (''google associate product manager'', 20),
      (''facebook rotpm'', 18), (''facebook rotational product manager'', 18),
      (''microsoft pm'', 15), (''amazon pm'', 15), (''apple pm'', 15), (''uber pm'', 12),
      (''airbnb pm'', 12),
      (''nature'', 20), (''science'', 20), (''cell'', 18), (''neuron'', 15), (''pnas'', 12),
      (''jama'', 15), (''lancet'', 15), (''ieee'', 10), (''acm'', 10), (''arxiv'', 8),
      (''patent'', 10), (''patents'', 10), (''patented'', 10), (''inventor'', 12),
      (''co-inventor'', 8)]"

text \<open>
  \<open>for k in keywords: if k in text: score += points\<close>, the loop every sub-score is
  built from. The honors table carries its own points per entry.
\<close>

fun add_matches :: "real \<Rightarrow> string list \<Rightarrow> string \<Rightarrow> real \<Rightarrow> real" where
  "add_matches points [] text score = score"
| "add_matches points (k # ks) text score =
     add_matches points ks text (if contains text k then score + points else score)"

fun add_honors :: "(string \<times> real) list \<Rightarrow> string \<Rightarrow> real \<Rightarrow> real" where
  "add_honors [] text score = score"
| "add_honors ((honor, points) # rest) text score =
     add_honors rest text (if contains text honor then score + points else score)"

subsection \<open>The years-of-experience pattern\<close>

text \<open>
  \<open>re.findall(r'(\d+)\s*(?:years?|yrs?)', text)\<close> on ASCII text. A match at a position
  takes the longest run of digits there, then the longest run of whitespace, then
  \<open>year\<close> or \<open>yr\<close> and an optional \<open>s\<close>. Backtracking into the digits or the
  whitespace cannot help: the character after a shorter run is again a digit or a blank,
  not \<open>y\<close>. \<open>findall\<close> scans from the left, returns the digit group of every match and goes
  on after the end of a match.
\<close>

definition is_digit :: "char \<Rightarrow> bool" where
  "is_digit c = (c \<in> set ''0123456789'')"

definition is_space :: "char \<Rightarrow> bool" where
  "is_space c =
     (c \<in> set [CHR '' '', CHR 0x09, CHR 0x0A, CHR 0x0B, CHR 0x0C, CHR 0x0D,
               CHR 0x1C, CHR 0x1D, CHR 0x1E, CHR 0x1F])"

definition optional_s :: "string \<Rightarrow> string" where
  "optional_s r = (case r of [] \<Rightarrow> [] | c # r' \<Rightarrow> if c = CHR ''s'' then r' else c # r')"

definition match_years :: "string \<Rightarrow> (string \<times> string) option" where
  "match_years text =
     (let digits = takeWhile is_digit text;
          after_space = dropWhile is_space (dropWhile is_digit text)
      in if digits = [] then None
         else if starts_with after_space ''year'' then Some (digits, optional_s (drop 4 after_space))
         else if starts_with after_space ''yr'' then Some (digits, optional_s (drop 2 after_space))
         else None)"

lemma match_years_shorter:
  "match_years s = Some (g, rest) \<Longrightarrow> length rest < length s"
proof -
  assume m: "match_years s = Some (g, rest)"
  have os: "length (optional_s r) \<le> length r" for r
    by (cases r) (simp_all add: optional_s_def)
  have d: "takeWhile is_digit s \<noteq> []"
    using m by (auto simp: match_years_def Let_def split: if_splits)
  then have "length (dropWhile is_digit s) < length s"
    by (cases s) (auto simp: le_imp_less_Suc length_dropWhile_le split: if_splits)
  moreover have "length (dropWhile is_space (dropWhile is_digit s)) \<le> length (dropWhile is_digit s)"
    by (rule length_dropWhile_le)
  moreover have "length rest \<le> length (dropWhile is_space (dropWhile is_digit s))"
    using m os [of "drop 4 (dropWhile is_space (dropWhile is_digit s))"]
      os [of "drop 2 (dropWhile is_space (dropWhile is_digit s))"]
    by (auto simp: match_years_def Let_def split: if_splits)
  ultimately show ?thesis by linarith
qed

function findall_years :: "string \<Rightarrow> string list" where
  "findall_years [] = []"
| "findall_years (c # cs) =
     (case match_years (c # cs) of
        Some (g, rest) \<Rightarrow> g # findall_years rest
      | None \<Rightarrow> findall_years cs)"
  by pat_completeness auto
termination
  by (relation "measure length") (auto dest: match_years_shorter)

text \<open>\<open>int(y)\<close> of a string of decimal digits.\<close>

definition digit_value :: "char \<Rightarrow> nat" where
  "digit_value c =
     (case map_of (zip ''0123456789'' [0, 1, 2, 3, 4, 5, 6, 7, 8, 9]) c of
        None \<Rightarrow> 0 | Some d \<Rightarrow> d)"

definition int_of_digits :: "string \<Rightarrow> nat" where
  "int_of_digits ds = foldl (\<lambda>a d. 10 * a + digit_value d) 0 ds"

definition max_list :: "nat list \<Rightarrow> nat" where
  "max_list ns = foldr max ns 0"

text \<open>The block guarded by \<open>if 'years' in experience_lower or 'yr' in experience_lower\<close>.\<close>

definition years_bonus :: "string \<Rightarrow> real" where
  "years_bonus experience_lower =
     (if contains experience_lower ''years'' \<or> contains experience_lower ''yr'' then
        (let year_patterns = findall_years experience_lower in
         if year_patterns \<noteq> [] then
           (let years = max_list (map int_of_digits year_patterns) in
            if years \<ge> 10 then 15
            else if years \<ge> 5 then 12
            else if years \<ge> 3 then 8
            else if years \<ge> 1 then 4
            else 0)
         else 0)
      else 0)"

definition relevant_keywords :: "string list" where
  "relevant_keywords =
     [''founder'', ''ceo'', ''cto'', ''co-founder'', ''startup'', ''entrepreneur'',
      ''director'', ''manager'', ''lead'', ''senior'', ''principal'', ''architect'',
      ''vp'', ''vice president'', ''head of'', ''chief'', ''executive'']"

definition evaluate_experience :: "string option \<Rightarrow> real" where
  "evaluate_experience experience =
     (case experience of
        None \<Rightarrow> 0
      | Some e \<Rightarrow>
          if e = [] then 0
          else
            (let experience_lower = lower e;
                 score1 = add_matches 12 prestigious_companies experience_lower 0;
                 score2 = add_matches 3 relevant_keywords experience_lower score1;
                 score3 = score2 + years_bonus experience_lower
             in min 35 score3))"

definition advanced_degrees :: "string list" where
  "advanced_degrees = [''phd'', ''doctorate'', ''mba'', ''master'', ''m.s.'', ''m.a.'', ''md'']"

definition relevant_fields :: "string list" where
  "relevant_fields =
     [''computer science'', ''engineering'', ''business'', ''economics'',
      ''mathematics'', ''physics'', ''chemistry'', ''biology'', ''medicine'',
      ''data science'', ''statistics'', ''finance'', ''marketing'']"

definition evaluate_education :: "string option \<Rightarrow> real" where
  "evaluate_education education =
     (case education of
        None \<Rightarrow> 0
      | Some e \<Rightarrow>
          if e = [] then 0
          else
            (let education_lower = lower e;
                 score1 = add_matches 12 prestigious_universities education_lower 0;
                 score2 = add_matches 8 advanced_degrees education_lower score1;
                 score3 = add_matches 3 relevant_fields education_lower score2
             in min 20 score3))"

definition evaluate_honors :: "FounderProfile \<Rightarrow> real" where
  "evaluate_honors founder =
     (let score1 = (if truthy (f_experience founder)
                    then add_honors prestigious_honors (lower (text_of (f_experience founder))) 0
                    else 0);
          score2 = (if truthy (f_education founder)
                    then add_honors prestigious_honors (lower (text_of (f_education founder))) score1
                    else score1);
          score3 = (if f_name founder \<noteq> [] \<and> contains (lower (f_name founder)) ''dr.''
                    then score2 + 10 else score2)
      in min 30 score3)"

text \<open>
  \<open>if founder.linkedin_connections:\<close> is false for \<open>None\<close> and for 0; the tiers are
  an \<open>if\<close>/\<open>elif\<close> chain.
\<close>

definition evaluate_network :: "FounderProfile \<Rightarrow> real" where
  "evaluate_network founder =
     (let score1 = (case f_linkedin_connections founder of
                      None \<Rightarrow> 0
                    | Some n \<Rightarrow>
                        if n = 0 then 0
                        else if n > 1000 then 10
                        else if n > 500 then 8
                        else if n > 200 then 6
                        else if n > 100 then 4
                        else 0);
          score2 = (case f_endorsements founder of
                      None \<Rightarrow> score1
                    | Some n \<Rightarrow>
                        if n = 0 then score1
                        else if n > 50 then score1 + 5
                        else if n > 20 then score1 + 4
                        else if n > 10 then score1 + 3
                        else score1)
      in min 15 score2)"

definition calculate_founder_quality :: "FounderProfile \<Rightarrow> real" where
  "calculate_founder_quality founder =
     (let total1 = evaluate_experience (f_experience founder);
          total2 = total1 + evaluate_education (f_education founder);
          total3 = total2 + evaluate_honors founder;
          total4 = total3 + evaluate_network founder
      in min 100 total4)"

definition relevant_industries :: "string list" where
  "relevant_industries =
     [''fintech'', ''healthtech'', ''ai'', ''ml'', ''saas'', ''e-commerce'',
      ''marketplace'', ''mobile'', ''software'', ''technology'']"

definition top_locations :: "string list" where
  "top_locations =
     [''san francisco'', ''new york'', ''austin'', ''boston'',
      ''seattle'', ''los angeles'', ''chicago'', ''miami'']"

text \<open>A \<open>for\<close> loop that adds its points at the first keyword found and breaks.\<close>

fun any_contained :: "string list \<Rightarrow> string \<Rightarrow> bool" where
  "any_contained [] s = False"
| "any_contained (k # ks) s = (if contains s k then True else any_contained ks s)"

definition calculate_company_quality :: "CompanyProfile \<Rightarrow> real" where
  "calculate_company_quality c =
     (let score1 = (case c_description c of
                      None \<Rightarrow> 0
                    | Some d \<Rightarrow>
                        if d = [] then 0
                        else if length d > 200 then 20
                        else if length d > 100 then 15
                        else if length d > 50 then 10
                        else 0);
          score2 = (if truthy (c_industry c) \<and>
                       any_contained relevant_industries (lower (text_of (c_industry c)))
                    then score1 + 15 else score1);
          score3 = (if truthy (c_location c) \<and>
                       any_contained top_locations (lower (text_of (c_location c)))
                    then score2 + 10 else score2);
          score4 = (case c_founded_year c of
                      None \<Rightarrow> score3
                    | Some y \<Rightarrow>
                        if y = 0 then score3
                        else (let age = 2024 - y in
                              if age \<le> 3 then score3 + 15
                              else if age \<le> 5 then score3 + 10
                              else if age \<le> 10 then score3 + 5
                              else score3))
      in min 100 score4)"

text \<open>The role a founder's title adds to the set \<open>roles\<close>, first matching branch.\<close>

definition title_role :: "string \<Rightarrow> string option" where
  "title_role title_lower =
     (if contains title_lower ''ceo'' \<or> contains title_lower ''founder'' then Some ''ceo''
      else if contains title_lower ''cto'' \<or> contains title_lower ''tech'' then Some ''cto''
      else if contains title_lower ''cpo'' \<or> contains title_lower ''product'' then Some ''cpo''
      else if contains title_lower ''cmo'' \<or> contains title_lower ''marketing'' then Some ''cmo''
      else if contains title_lower ''cfo'' \<or> contains title_lower ''finance'' then Some ''cfo''
      else None)"

fun collect_roles :: "string list \<Rightarrow> FounderProfile list \<Rightarrow> string list" where
  "collect_roles roles [] = roles"
| "collect_roles roles (founder # rest) =
     collect_roles
       (if truthy (f_title founder) then
          (case title_role (lower (text_of (f_title founder))) of
             None \<Rightarrow> roles
           | Some r \<Rightarrow> List.insert r roles)
        else roles)
       rest"

definition calculate_team_completeness :: "FounderProfile list \<Rightarrow> real" where
  "calculate_team_completeness fs =
     (let founder_count = length fs;
          score1 = (if founder_count \<ge> 3 then 30
                    else if founder_count = 2 then 25
                    else if founder_count = 1 then 15
                    else 0);
          roles = collect_roles [] fs;
          score2 = (if length roles \<ge> 3 then score1 + 40
                    else if length roles = 2 then score1 + 30
                    else if length roles = 1 then score1 + 20
                    else score1);
          key_found = length (filter (\<lambda>k. k \<in> set roles) [''ceo'', ''cto'', ''cpo'']);
          score3 = (if key_found = 3 then score2 + 30
                    else if key_found \<ge> 2 then score2 + 20
                    else if key_found \<ge> 1 then score2 + 10
                    else score2)
      in min 100 score3)"

text \<open>
  \<open>round(x, 2)\<close>: the nearest multiple of 0.01, a tie going to the even one, as Python
  rounds an exactly representable value.
\<close>

definition py_round2 :: "real \<Rightarrow> real" where
  "py_round2 x =
     (let y = x * 100;
          f = \<lfloor>y\<rfloor>;
          d = y - of_int f
      in of_int (if d < 1 / 2 then f
                 else if d > 1 / 2 then f + 1
                 else if even f then f else f + 1) / 100)"

fun founder_scores_loop :: "real list \<Rightarrow> FounderProfile list \<Rightarrow> real list" where
  "founder_scores_loop founder_scores [] = founder_scores"
| "founder_scores_loop founder_scores (founder # rest) =
     founder_scores_loop (founder_scores @ [calculate_founder_quality founder]) rest"

definition calculate_quality_score :: "StartupProfile \<Rightarrow> real" where
  "calculate_quality_score startup =
     (if founders startup = [] then 0
      else
        (let founder_scores = founder_scores_loop [] (founders startup);
             company_score = calculate_company_quality (company startup);
             team_score = calculate_team_completeness (founders startup);
             overall_score =
               (sum_list founder_scores / real (length founder_scores)) * 0.6 +
               company_score * 0.25 +
               team_score * 0.15
         in py_round2 overall_score))"

section \<open>Fit metrics (models/fit\_metric.py, models/optimized\_fit\_metric.py)\<close>

datatype py_error = ValueError | ValidationError | TypeError

text \<open>
  \<open>sklearn.metrics.pairwise.cosine_similarity([x], [y])[0][0]\<close> over the reals: each row
  is divided by its Euclidean norm (a zero norm is replaced by 1) and the dot product of
  the two is returned. Rows of different lengths, and rows with no entries, raise
  \<open>ValueError\<close>.
\<close>

definition dot :: "real list \<Rightarrow> real list \<Rightarrow> real" where
  "dot x y = sum_list (map (\<lambda>(a, b). a * b) (zip x y))"

definition normalize :: "real list \<Rightarrow> real list" where
  "normalize x =
     (let norm = sqrt (dot x x);
          norm' = (if norm = 0 then 1 else norm)
      in map (\<lambda>a. a / norm') x)"

definition cosine_similarity :: "real list \<Rightarrow> real list \<Rightarrow> py_error + real" where
  "cosine_similarity x y =
     (if x = [] \<or> y = [] \<or> length x \<noteq> length y then Inl ValueError
      else Inr (dot (normalize x) (normalize y)))"

text \<open>
  The sentence-embedding model is a parameter: \<open>None\<close> when it failed to load, otherwise
  a function from a text to its vector, \<open>None\<close> where \<open>encode\<close> raises.
\<close>

type_synonym embedding_model = "(string \<Rightarrow> real list option) option"

definition join_space :: "string list \<Rightarrow> string" where
  "join_space parts = (case parts of [] \<Rightarrow> [] | p # ps \<Rightarrow> foldl (\<lambda>acc q. acc @ '' '' @ q) p ps)"

definition text_part :: "string option \<Rightarrow> string list" where
  "text_part s = (if truthy s then [text_of s] else [])"

subsection \<open>\<open>FitMetricCalculator\<close>\<close>

definition prepare_startup_text :: "StartupProfile \<Rightarrow> string" where
  "prepare_startup_text startup =
     join_space
       (text_part (c_description (company startup)) @
        text_part (c_industry (company startup)) @
        concat (map (\<lambda>founder. text_part (f_experience founder) @ text_part (f_title founder))
                  (founders startup)))"

definition prepare_vc_text :: "VCProfile \<Rightarrow> string" where
  "prepare_vc_text vc =
     join_space
       (text_part (vc_investment_thesis vc) @ vc_focus_areas vc @ vc_portfolio_companies vc)"

text \<open>Every exception inside \<open>_calculate_text_similarity\<close> is caught and gives 0.0.\<close>

definition calculate_text_similarity :: "embedding_model \<Rightarrow> StartupProfile \<Rightarrow> VCProfile \<Rightarrow> real" where
  "calculate_text_similarity model startup vc =
     (let startup_text = prepare_startup_text startup;
          vc_text = prepare_vc_text vc
      in if startup_text = [] \<or> vc_text = [] then 0
         else
           (case model of
              None \<Rightarrow> 0
            | Some encode \<Rightarrow>
                (case encode startup_text of
                   None \<Rightarrow> 0
                 | Some startup_embedding \<Rightarrow>
                     (case encode vc_text of
                        None \<Rightarrow> 0
                      | Some vc_embedding \<Rightarrow>
                          (case cosine_similarity startup_embedding vc_embedding of
                             Inl e \<Rightarrow> 0
                           | Inr similarity \<Rightarrow> similarity * 100)))))"

definition related_industries :: "string \<Rightarrow> string list" where
  "related_industries industry =
     (case map_of
        [(''fintech'', [''financial services'', ''banking'', ''payments'', ''insurtech'']),
         (''healthtech'', [''healthcare'', ''medical'', ''biotech'', ''digital health'']),
         (''e-commerce'', [''retail'', ''marketplace'', ''online shopping'']),
         (''saas'', [''software'', ''enterprise'', ''b2b'', ''cloud'']),
         (''ai/ml'', [''artificial intelligence'', ''machine learning'', ''data science'']),
         (''mobile'', [''mobile app'', ''ios'', ''android'', ''mobile gaming''])]
        industry of
        None \<Rightarrow> []
      | Some rel \<Rightarrow> rel)"

fun partial_match :: "similarity \<Rightarrow> string \<Rightarrow> string list \<Rightarrow> bool" where
  "partial_match word_similarity startup_industry [] = False"
| "partial_match word_similarity startup_industry (focus_area # rest) =
     (if contains focus_area startup_industry \<or> contains startup_industry focus_area \<or>
         word_similarity startup_industry focus_area > 0.7
      then True
      else partial_match word_similarity startup_industry rest)"

fun related_match :: "string list \<Rightarrow> string list \<Rightarrow> bool" where
  "related_match [] focus_areas_lower = False"
| "related_match (related # rest) focus_areas_lower =
     (if related \<in> set focus_areas_lower then True else related_match rest focus_areas_lower)"

text \<open>
  \<open>_calculate_word_similarity\<close> is \<open>SequenceMatcher(None, a, b).ratio()\<close>, a parameter as
  in the conflict detector. Nothing in the body raises on typed input.
\<close>

definition calculate_industry_alignment :: "similarity \<Rightarrow> StartupProfile \<Rightarrow> VCProfile \<Rightarrow> real" where
  "calculate_industry_alignment word_similarity startup vc =
     (if falsy (c_industry (company startup)) \<or> vc_focus_areas vc = [] then 0
      else
        (let startup_industry = lower (text_of (c_industry (company startup)));
             focus_areas_lower = map lower (vc_focus_areas vc)
         in if startup_industry \<in> set focus_areas_lower then 100
            else if partial_match word_similarity startup_industry focus_areas_lower then 75
            else if related_match (related_industries startup_industry) focus_areas_lower then 50
            else 0))"

definition stage_hierarchy :: "string \<Rightarrow> int" where
  "stage_hierarchy stage =
     (case map_of
        [(''pre-seed'', 1), (''seed'', 2), (''series-a'', 3), (''series-b'', 4),
         (''series-c'', 5), (''growth'', 6)]
        stage of
        None \<Rightarrow> 0
      | Some n \<Rightarrow> n)"

text \<open>
  The loop over the VC's stages returns from inside its body: 75.0 at the first stage
  within one step, 50.0 at the first stage within two, and goes on otherwise. Nothing in
  \<open>_calculate_stage_alignment\<close> raises on typed input, so its \<open>except\<close> branch is
  never taken.
\<close>

fun stage_loop :: "int \<Rightarrow> string list \<Rightarrow> real" where
  "stage_loop startup_stage_num [] = 0"
| "stage_loop startup_stage_num (vc_stage # rest) =
     (let vc_stage_num = stage_hierarchy vc_stage
      in if \<bar>startup_stage_num - vc_stage_num\<bar> \<le> 1 then 75
         else if \<bar>startup_stage_num - vc_stage_num\<bar> \<le> 2 then 50
         else stage_loop startup_stage_num rest)"

definition calculate_stage_alignment :: "StartupProfile \<Rightarrow> VCProfile \<Rightarrow> real" where
  "calculate_stage_alignment startup vc =
     (if falsy (c_funding_stage (company startup)) \<or> vc_investment_stages vc = [] then 0
      else
        (let startup_stage = lower (text_of (c_funding_stage (company startup)));
             vc_stages = map lower (vc_investment_stages vc)
         in if startup_stage \<in> set vc_stages then 100
            else stage_loop (stage_hierarchy startup_stage) vc_stages))"

subsection \<open>\<open>OptimizedFitMetricCalculator\<close>\<close>

text \<open>
  \<open>_get_text_embedding\<close>. Its two caches (the \<open>lru_cache\<close> on the text and the timed
  cache on its MD5 key) only replay what \<open>encode\<close> returned for the same text, and
  \<open>encode\<close> is a function here, so they are left out.
\<close>

definition get_text_embedding :: "embedding_model \<Rightarrow> string \<Rightarrow> real list" where
  "get_text_embedding model s =
     (case model of
        None \<Rightarrow> replicate 384 0
      | Some encode \<Rightarrow>
          if s = [] then replicate 384 0
          else (case encode s of None \<Rightarrow> replicate 384 0 | Some embedding \<Rightarrow> embedding))"

definition prepare_startup_text_optimized :: "StartupProfile \<Rightarrow> string" where
  "prepare_startup_text_optimized startup =
     join_space
       (text_part (c_description (company startup)) @
        text_part (c_industry (company startup)) @
        concat (map (\<lambda>founder.
                       (if truthy (f_experience founder)
                        then [take 200 (text_of (f_experience founder))] else []) @
                       text_part (f_title founder))
                  (take 2 (founders startup))))"

definition prepare_vc_text_optimized :: "VCProfile \<Rightarrow> string" where
  "prepare_vc_text_optimized vc =
     join_space
       (text_part (vc_investment_thesis vc) @ take 5 (vc_focus_areas vc) @
        take 10 (vc_portfolio_companies vc))"

text \<open>
  \<open>_get_vc_embedding\<close> reads and fills the dict \<open>self.vc_embeddings\<close>, keyed by the
  firm's name: the dict goes in and comes out.
\<close>

type_synonym vc_embeddings = "string \<rightharpoonup> real list"

definition get_vc_embedding ::
  "embedding_model \<Rightarrow> vc_embeddings \<Rightarrow> VCProfile \<Rightarrow> real list \<times> vc_embeddings" where
  "get_vc_embedding model cache vc =
     (let vc_key = ''vc_'' @ vc_name vc
      in case cache vc_key of
           Some embedding \<Rightarrow> (embedding, cache)
         | None \<Rightarrow>
             (let embedding = get_text_embedding model (prepare_vc_text_optimized vc)
              in (embedding, cache(vc_key \<mapsto> embedding))))"

definition calculate_text_similarity_optimized ::
  "embedding_model \<Rightarrow> StartupProfile \<Rightarrow> real list \<Rightarrow> real" where
  "calculate_text_similarity_optimized model startup vc_embedding =
     (let startup_text = prepare_startup_text_optimized startup;
          startup_embedding = get_text_embedding model startup_text
      in case cosine_similarity startup_embedding vc_embedding of
           Inl e \<Rightarrow> 0
         | Inr similarity \<Rightarrow> similarity * 100)"

fun quick_partial_match :: "string \<Rightarrow> string list \<Rightarrow> bool" where
  "quick_partial_match startup_industry [] = False"
| "quick_partial_match startup_industry (focus_area # rest) =
     (if contains focus_area startup_industry \<or> contains startup_industry focus_area then True
      else quick_partial_match startup_industry rest)"

definition calculate_industry_alignment_optimized :: "StartupProfile \<Rightarrow> VCProfile \<Rightarrow> real" where
  "calculate_industry_alignment_optimized startup vc =
     (if falsy (c_industry (company startup)) \<or> vc_focus_areas vc = [] then 0
      else
        (let startup_industry = lower (text_of (c_industry (company startup)));
             focus_areas_lower = map lower (vc_focus_areas vc)
         in if startup_industry \<in> set focus_areas_lower then 100
            else if quick_partial_match startup_industry focus_areas_lower then 75
            else 0))"

definition stage_hierarchy_optimized :: "string \<Rightarrow> int" where
  "stage_hierarchy_optimized stage =
     (case map_of [(''pre-seed'', 1), (''seed'', 2), (''series-a'', 3), (''series-b'', 4)] stage of
        None \<Rightarrow> 0
      | Some n \<Rightarrow> n)"

fun stage_loop_optimized :: "int \<Rightarrow> string list \<Rightarrow> real" where
  "stage_loop_optimized startup_stage_num [] = 0"
| "stage_loop_optimized startup_stage_num (vc_stage # rest) =
     (if \<bar>startup_stage_num - stage_hierarchy_optimized vc_stage\<bar> \<le> 1 then 75
      else stage_loop_optimized startup_stage_num rest)"

definition calculate_stage_alignment_optimized :: "StartupProfile \<Rightarrow> VCProfile \<Rightarrow> real" where
  "calculate_stage_alignment_optimized startup vc =
     (if falsy (c_funding_stage (company startup)) \<or> vc_investment_stages vc = [] then 0
      else
        (let startup_stage = lower (text_of (c_funding_stage (company startup)));
             vc_stages = map lower (vc_investment_stages vc)
         in if startup_stage \<in> set vc_stages then 100
            else stage_loop_optimized (stage_hierarchy_optimized startup_stage) vc_stages))"

text \<open>\<open>s.split(', ')\<close>: the pieces between the occurrences of a comma and a blank.\<close>

fun split_comma :: "string \<Rightarrow> string \<Rightarrow> string list" where
  "split_comma piece [] = [piece]"
| "split_comma piece [c] = [piece @ [c]]"
| "split_comma piece (c # d # rest) =
     (if c = CHR '','' \<and> d = CHR '' '' then piece # split_comma [] rest
      else split_comma (piece @ [c]) (d # rest))"

fun any_part_listed :: "string list \<Rightarrow> string list \<Rightarrow> bool" where
  "any_part_listed [] vc_locations = False"
| "any_part_listed (part # rest) vc_locations =
     (if part \<in> set vc_locations then True else any_part_listed rest vc_locations)"

definition calculate_geographic_alignment_optimized :: "StartupProfile \<Rightarrow> VCProfile \<Rightarrow> real" where
  "calculate_geographic_alignment_optimized startup vc =
     (if falsy (c_location (company startup)) \<or> vc_geographic_focus vc = [] then 0
      else
        (let startup_location = lower (text_of (c_location (company startup)));
             vc_locations = map lower (vc_geographic_focus vc)
         in if startup_location \<in> set vc_locations then 100
            else if any_part_listed (split_comma [] startup_location) vc_locations then 75
            else 0))"

definition evaluate_experience_fast :: "string \<Rightarrow> real" where
  "evaluate_experience_fast experience =
     min 50 (add_matches 10
               [''founder'', ''ceo'', ''cto'', ''startup'', ''google'', ''facebook'', ''amazon'']
               (lower experience) 0)"

definition founder_network_score :: "FounderProfile \<Rightarrow> real" where
  "founder_network_score founder =
     (let score1 = (case f_linkedin_connections founder of
                      None \<Rightarrow> 0
                    | Some n \<Rightarrow>
                        if n = 0 then 0
                        else if n > 500 then 30
                        else if n > 200 then 20
                        else if n > 100 then 10
                        else 0);
          score2 = (case f_endorsements founder of
                      None \<Rightarrow> score1
                    | Some n \<Rightarrow>
                        if n = 0 then score1
                        else if n > 20 then score1 + 20
                        else if n > 10 then score1 + 15
                        else score1);
          score3 = (if truthy (f_experience founder)
                    then score2 + evaluate_experience_fast (text_of (f_experience founder))
                    else score2)
      in score3)"

fun network_loop :: "real \<Rightarrow> FounderProfile list \<Rightarrow> real" where
  "network_loop total_score [] = total_score"
| "network_loop total_score (founder # rest) =
     network_loop (total_score + founder_network_score founder) rest"

definition calculate_network_proximity_optimized :: "StartupProfile \<Rightarrow> real" where
  "calculate_network_proximity_optimized startup =
     (if founders startup = [] then 0
      else min 100 (network_loop 0 (founders startup) / real (length (founders startup))))"

definition calculate_overall_score :: "real \<Rightarrow> real \<Rightarrow> real \<Rightarrow> real \<Rightarrow> real \<Rightarrow> real" where
  "calculate_overall_score text_sim industry stage geographic network =
     py_round2 (text_sim * 0.25 + industry * 0.25 + stage * 0.20 + geographic * 0.15 +
                network * 0.15)"

text \<open>
  \<open>FitMetrics\<close> is a pydantic model whose six scores are declared
  \<open>Field(ge=0, le=100)\<close>: constructing it with a score outside the range raises a
  validation error.
\<close>

record FitMetrics =
  startup_id :: string
  vc_firm :: string
  overall_score :: real
  text_similarity :: real
  industry_alignment :: real
  stage_alignment :: real
  geographic_alignment :: real
  network_proximity :: real

definition in_range :: "real \<Rightarrow> bool" where
  "in_range x = (0 \<le> x \<and> x \<le> 100)"

definition new_FitMetrics ::
  "string \<Rightarrow> string \<Rightarrow> real \<Rightarrow> real \<Rightarrow> real \<Rightarrow> real \<Rightarrow> real \<Rightarrow> real \<Rightarrow> py_error + FitMetrics" where
  "new_FitMetrics sid firm overall text_sim industry stage geographic network =
     (if in_range overall \<and> in_range text_sim \<and> in_range industry \<and> in_range stage \<and>
         in_range geographic \<and> in_range network
      then Inr \<lparr>startup_id = sid, vc_firm = firm, overall_score = overall,
                text_similarity = text_sim, industry_alignment = industry,
                stage_alignment = stage, geographic_alignment = geographic,
                network_proximity = network\<rparr>
      else Inl ValidationError)"

definition calculate_single_fit_metrics ::
  "embedding_model \<Rightarrow> StartupProfile \<Rightarrow> VCProfile \<Rightarrow> real list \<Rightarrow> py_error + FitMetrics" where
  "calculate_single_fit_metrics model startup vc vc_embedding =
     (let text_sim = calculate_text_similarity_optimized model startup vc_embedding;
          industry = calculate_industry_alignment_optimized startup vc;
          stage = calculate_stage_alignment_optimized startup vc;
          geographic = calculate_geographic_alignment_optimized startup vc;
          network = calculate_network_proximity_optimized startup;
          overall = calculate_overall_score text_sim industry stage geographic network
      in new_FitMetrics (c_name (company startup)) (vc_name vc) overall text_sim industry stage
           geographic network)"

text \<open>
  The batch loop: each startup is scored inside \<open>try\<close>; on an exception the handler logs
  and \<open>continue\<close>s, otherwise the metrics are appended to \<open>results\<close>.
\<close>

definition try_except :: "py_error + 'a \<Rightarrow> (py_error \<Rightarrow> py_error + 'a) \<Rightarrow> py_error + 'a" where
  "try_except body handler = (case body of Inl e \<Rightarrow> handler e | Inr v \<Rightarrow> Inr v)"

fun batch_loop ::
  "(StartupProfile \<Rightarrow> py_error + FitMetrics) \<Rightarrow> FitMetrics list \<Rightarrow> StartupProfile list \<Rightarrow>
   py_error + FitMetrics list" where
  "batch_loop score results [] = Inr results"
| "batch_loop score results (startup # rest) =
     (case try_except
             (case score startup of
                Inl e \<Rightarrow> Inl e
              | Inr fit_metrics \<Rightarrow> Inr (results @ [fit_metrics]))
             (\<lambda>e. Inr results) of
        Inl e \<Rightarrow> Inl e
      | Inr results' \<Rightarrow> batch_loop score results' rest)"

definition calculate_fit_metrics_batch ::
  "embedding_model \<Rightarrow> vc_embeddings \<Rightarrow> StartupProfile list \<Rightarrow> VCProfile \<Rightarrow>
   py_error + (FitMetrics list \<times> vc_embeddings)" where
  "calculate_fit_metrics_batch model cache startups vc =
     (let (vc_embedding, cache') = get_vc_embedding model cache vc
      in case batch_loop (\<lambda>startup. calculate_single_fit_metrics model startup vc vc_embedding)
                [] startups of
           Inl e \<Rightarrow> Inl e
         | Inr results \<Rightarrow> Inr (results, cache'))"

text \<open>The metrics of the startups that were scored without an exception, in input order.\<close>

definition scored_ok :: "(StartupProfile \<Rightarrow> py_error + FitMetrics) \<Rightarrow> StartupProfile list \<Rightarrow> FitMetrics list" where
  "scored_ok score startups =
     List.map_filter (\<lambda>startup. case score startup of Inl e \<Rightarrow> None | Inr m \<Rightarrow> Some m) startups"

section \<open>Result ranker (unified\_vc\_sourcing\_agent.py)\<close>

text \<open>
  Steps 6 and 7 of \<open>source_startups_for_vc\<close>: every startup gets its quality score, then
  its conflict dict and its portfolio-fit dict, both computed against the resolved portfolio
  list of the firm.
\<close>

definition annotate_startup :: "similarity \<Rightarrow> PortfolioCompany list \<Rightarrow> StartupProfile \<Rightarrow> StartupProfile" where
  "annotate_startup calculate_similarity portfolio_companies startup =
     (let s1 = startup\<lparr>quality_score := Some (calculate_quality_score startup)\<rparr>;
          s2 = s1\<lparr>portfolio_conflicts :=
                    Some (detect_portfolio_conflicts calculate_similarity s1 portfolio_companies)\<rparr>;
          s3 = s2\<lparr>portfolio_fit := Some (calculate_portfolio_fit s2 portfolio_companies)\<rparr>
      in s3)"

text \<open>
  \<open>_analyze_startup_pros_cons\<close> compares \<open>startup.quality_score\<close> with a number and
  subscripts \<open>startup.portfolio_fit\<close> and \<open>startup.portfolio_conflicts\<close>: each raises
  \<open>TypeError\<close> on \<open>None\<close>.
\<close>

definition analyze_startup_pros_cons ::
  "StartupProfile \<Rightarrow> FitMetrics \<Rightarrow> py_error + (string list \<times> string list)" where
  "analyze_startup_pros_cons startup metric =
     (let (pros1, cons1) =
            (if overall_score metric > 80 then ([''Excellent fit with VC criteria''], [])
             else if overall_score metric > 60 then ([''Good fit with VC criteria''], [])
             else ([], [''Poor fit with VC criteria'']))
      in case quality_score startup of
           None \<Rightarrow> Inl TypeError
         | Some q \<Rightarrow>
             (let (pros2, cons2) =
                    (if q > 80 then (pros1 @ [''High quality founders''], cons1)
                     else if q < 50 then (pros1, cons1 @ [''Low quality founders''])
                     else (pros1, cons1))
              in case portfolio_fit startup of
                   None \<Rightarrow> Inl TypeError
                 | Some pf \<Rightarrow>
                     (let (pros3, cons3) =
                            (if portfolio_fit_score pf > 70 then (pros2 @ [''Good portfolio fit''], cons2)
                             else if portfolio_fit_score pf < 40 then (pros2, cons2 @ [''Poor portfolio fit''])
                             else (pros2, cons2))
                      in case portfolio_conflicts startup of
                           None \<Rightarrow> Inl TypeError
                         | Some c \<Rightarrow>
                             Inr (pros3,
                                  if has_conflicts c
                                  then cons3 @ [''Conflicts with '' @ str_nat (length (conflict_companies c)) @
                                                '' portfolio companies'']
                                  else cons3))))"

definition get_startup_recommendation :: "real \<Rightarrow> string" where
  "get_startup_recommendation score =
     (if score \<ge> 80 then ''Strong Match - Highly recommend''
      else if score \<ge> 65 then ''Good Match - Worth considering''
      else if score \<ge> 50 then ''Moderate Match - Review further''
      else ''Weak Match - Low priority'')"

text \<open>The entries of a result dict that the ranking and the recommendation concern.\<close>

record AnalysisResult =
  r_company_name :: string
  r_overall_score :: real
  r_fit_score :: real
  r_quality_score :: "real option"
  r_portfolio_fit_score :: "real option"
  r_portfolio_conflicts :: "Conflicts option"
  r_recommendation :: string
  r_pros :: "string list"
  r_cons :: "string list"

text \<open>
  The body of the loop of \<open>_create_startup_analysis\<close> for a metric whose startup was
  found. A \<open>FitMetrics\<close> always carries an \<open>overall_score\<close>, so the
  \<open>if overall_score is None: continue\<close> is never taken.
\<close>

definition startup_result :: "StartupProfile \<Rightarrow> FitMetrics \<Rightarrow> py_error + AnalysisResult" where
  "startup_result startup metric =
     (let combined_score =
            overall_score metric * 0.4 +
            (case quality_score startup of None \<Rightarrow> 0 | Some q \<Rightarrow> q) * 0.3 +
            (case portfolio_fit startup of None \<Rightarrow> 0 | Some pf \<Rightarrow> portfolio_fit_score pf) * 0.3
      in case analyze_startup_pros_cons startup metric of
           Inl e \<Rightarrow> Inl e
         | Inr (pros, cons) \<Rightarrow>
             (let recommendation = get_startup_recommendation combined_score;
                  recommendation' =
                    (case portfolio_conflicts startup of
                       None \<Rightarrow> recommendation
                     | Some c \<Rightarrow>
                         if has_conflicts c then
                           (if severity c = ''high'' then ''High Conflict - Avoid''
                            else if severity c = ''medium'' then ''Moderate Conflict - Review carefully''
                            else recommendation)
                         else recommendation)
              in Inr \<lparr>r_company_name = c_name (company startup),
                       r_overall_score = combined_score,
                       r_fit_score = overall_score metric,
                       r_quality_score = quality_score startup,
                       r_portfolio_fit_score = map_option portfolio_fit_score (portfolio_fit startup),
                       r_portfolio_conflicts = portfolio_conflicts startup,
                       r_recommendation = recommendation',
                       r_pros = pros,
                       r_cons = cons\<rparr>))"

text \<open>
  \<open>startup_map\<close> is a dict comprehension keyed by company name: of two startups with one
  name the later one stays.
\<close>

definition startup_map :: "StartupProfile list \<Rightarrow> (string \<rightharpoonup> StartupProfile)" where
  "startup_map startups = map_of (rev (map (\<lambda>startup. (c_name (company startup), startup)) startups))"

fun analysis_loop ::
  "(string \<rightharpoonup> StartupProfile) \<Rightarrow> AnalysisResult list \<Rightarrow> FitMetrics list \<Rightarrow>
   py_error + AnalysisResult list" where
  "analysis_loop smap detailed_results [] = Inr detailed_results"
| "analysis_loop smap detailed_results (metric # rest) =
     (case smap (startup_id metric) of
        None \<Rightarrow> analysis_loop smap detailed_results rest
      | Some startup \<Rightarrow>
          (case startup_result startup metric of
             Inl e \<Rightarrow> Inl e
           | Inr result \<Rightarrow> analysis_loop smap (detailed_results @ [result]) rest))"

text \<open>The final \<open>sort(key=..., reverse=True)\<close> is stable and descending in the combined score.\<close>

definition create_startup_analysis ::
  "FitMetrics list \<Rightarrow> StartupProfile list \<Rightarrow> py_error + AnalysisResult list" where
  "create_startup_analysis fit_metrics startups =
     (case analysis_loop (startup_map startups) [] fit_metrics of
        Inl e \<Rightarrow> Inl e
      | Inr detailed_results \<Rightarrow> Inr (sort_key (\<lambda>r. - r_overall_score r) detailed_results))"

section \<open>Sample inputs\<close>

definition demo_company :: "string option \<Rightarrow> CompanyProfile" where
  "demo_company ind =
     \<lparr>c_name = ''Acme'', c_description = None, c_industry = ind, c_location = None,
      c_founded_year = None, c_funding_stage = None\<rparr>"

definition demo_startup :: "string option \<Rightarrow> StartupProfile" where
  "demo_startup ind =
     \<lparr>company = demo_company ind, founders = [], quality_score = None,
      portfolio_conflicts = None, portfolio_fit = None\<rparr>"

definition demo_pc :: "string \<Rightarrow> string \<Rightarrow> PortfolioCompany" where
  "demo_pc nm ind = \<lparr>pc_name = nm, pc_industry = Some ind, pc_description = Some ''Payments''\<rparr>"







definition seed_startup :: StartupProfile where
  "seed_startup =
     \<lparr>company = \<lparr>c_name = ''Acme'', c_description = Some ''payments'', c_industry = Some ''Fintech'',
                  c_location = Some ''Austin, TX'', c_founded_year = Some 2022,
                  c_funding_stage = Some ''Seed''\<rparr>,
      founders = [], quality_score = None, portfolio_conflicts = None, portfolio_fit = None\<rparr>"

definition demo_vc :: "string list \<Rightarrow> string list \<Rightarrow> VCProfile" where
  "demo_vc focus stages =
     \<lparr>vc_name = ''Nexus'', vc_investment_thesis = Some ''travel'', vc_focus_areas = focus,
      vc_investment_stages = stages, vc_portfolio_companies = [], vc_geographic_focus = [''Austin'']\<rparr>"

definition beta_startup :: StartupProfile where
  "beta_startup =
     \<lparr>company = \<lparr>c_name = ''Beta'', c_description = Some ''trips'', c_industry = Some ''Travel'',
                  c_location = Some ''Austin, TX'', c_founded_year = None,
                  c_funding_stage = Some ''Seed''\<rparr>,
      founders = [], quality_score = None, portfolio_conflicts = None, portfolio_fit = None\<rparr>"

text \<open>An embedding model that sends the startup's text and every other text to opposite vectors.\<close>

definition opposed_model :: embedding_model where
  "opposed_model = Some (\<lambda>s. Some (if s = ''payments Fintech'' then [1] else [- 1]))"

section \<open>Properties of the portfolio fit estimator\<close>

lemma count_industries_lookup:
  "count_industries m is i =
     (if i \<in> set is \<or> m i \<noteq> None
      then Some ((case m i of None \<Rightarrow> 0 | Some c \<Rightarrow> c) + length (filter (\<lambda>j. j = i) is))
      else None)"
  by (induction "is" arbitrary: m) auto

lemma count_industries_empty:
  "count_industries Map.empty (map pc_industry pcs) i =
     (if industry_occurrences i pcs = 0 then None else Some (industry_occurrences i pcs))"
proof -
  have "length (filter (\<lambda>j. j = i) (map pc_industry pcs)) = industry_occurrences i pcs"
    by (simp add: industry_occurrences_def filter_map comp_def)
  moreover have "(i \<in> set (map pc_industry pcs)) = (industry_occurrences i pcs \<noteq> 0)"
    by (auto simp: industry_occurrences_def filter_empty_conv)
  ultimately show ?thesis
    by (simp add: count_industries_lookup)
qed

text \<open>
  C6. For an empty portfolio list the estimator returns 50.0 with the reasoning
  "No portfolio data available". Otherwise, with n the number of portfolio companies whose
  industry is the candidate's: 75.0 when n = 0, 30.0 when n > 5, 50.0 when 2 < n \<le> 5,
  65.0 otherwise. The reasoning list always has exactly one element.
\<close>

theorem calculate_portfolio_fit_tiers:
  "(pcs = [] \<longrightarrow>
      calculate_portfolio_fit startup pcs =
        \<lparr>portfolio_fit_score = 50, reasoning = [''No portfolio data available'']\<rparr>) \<and>
   (pcs \<noteq> [] \<longrightarrow>
      portfolio_fit_score (calculate_portfolio_fit startup pcs) =
        (if industry_occurrences (c_industry (company startup)) pcs = 0 then 75
         else if industry_occurrences (c_industry (company startup)) pcs > 5 then 30
         else if industry_occurrences (c_industry (company startup)) pcs > 2 then 50
         else 65)) \<and>
   length (reasoning (calculate_portfolio_fit startup pcs)) = 1"
  by (simp add: calculate_portfolio_fit_def Let_def count_industries_empty)

theorem calculate_portfolio_fit_tiers_witness:
  "calculate_portfolio_fit (demo_startup (Some ''Fintech'')) [] =
     \<lparr>portfolio_fit_score = 50, reasoning = [''No portfolio data available'']\<rparr> \<and>
   portfolio_fit_score
     (calculate_portfolio_fit (demo_startup (Some ''Fintech''))
        [demo_pc ''Stripe'' ''Fintech'', demo_pc ''Zoom'' ''SaaS'']) = 65 \<and>
   portfolio_fit_score
     (calculate_portfolio_fit (demo_startup (Some ''Gaming''))
        [demo_pc ''Stripe'' ''Fintech'', demo_pc ''Zoom'' ''SaaS'']) = 75"
  using calculate_portfolio_fit_tiers [of "[]" "demo_startup (Some ''Fintech'')"]
    calculate_portfolio_fit_tiers
      [of "[demo_pc ''Stripe'' ''Fintech'', demo_pc ''Zoom'' ''SaaS'']" "demo_startup (Some ''Fintech'')"]
    calculate_portfolio_fit_tiers
      [of "[demo_pc ''Stripe'' ''Fintech'', demo_pc ''Zoom'' ''SaaS'']" "demo_startup (Some ''Gaming'')"]
  by (simp add: industry_occurrences_def demo_startup_def demo_company_def demo_pc_def)

text \<open>
  C10. A startup whose industry is \<open>None\<close>, scored against a non-empty portfolio list in
  which no company's industry is \<open>None\<close>, is treated as a novel industry: score 75.0 with the
  reasoning "New industry for portfolio".
\<close>

theorem calculate_portfolio_fit_missing_industry:
  assumes "c_industry (company startup) = None"
    and "pcs \<noteq> []"
    and "\<forall>pc \<in> set pcs. pc_industry pc \<noteq> None"
  shows "calculate_portfolio_fit startup pcs =
           \<lparr>portfolio_fit_score = 75, reasoning = [''New industry for portfolio'']\<rparr>"
proof -
  have "filter (\<lambda>pc. pc_industry pc = None) pcs = []"
    using assms(3) by (simp add: filter_empty_conv)
  then have "industry_occurrences None pcs = 0"
    by (simp add: industry_occurrences_def)
  then have "count_industries Map.empty (map pc_industry pcs) None = None"
    by (simp add: count_industries_empty)
  with assms(1,2) show ?thesis
    by (simp add: calculate_portfolio_fit_def Let_def)
qed

theorem calculate_portfolio_fit_missing_industry_witness:
  "calculate_portfolio_fit (demo_startup None)
     [demo_pc ''Stripe'' ''Fintech'', demo_pc ''Zoom'' ''SaaS''] =
     \<lparr>portfolio_fit_score = 75, reasoning = [''New industry for portfolio'']\<rparr>"
  by (rule calculate_portfolio_fit_missing_industry)
     (simp_all add: demo_startup_def demo_company_def demo_pc_def)

section \<open>Properties of the portfolio conflict detector\<close>

lemma check_portfolio_company_fields:
  "conflict_types (check_portfolio_company sim s c pc) = conflict_types c @ triggered_rules sim s pc"
  "conflict_companies (check_portfolio_company sim s c pc) =
     conflict_companies c @ replicate (length (triggered_rules sim s pc)) (pc_name pc)"
  "has_conflicts (check_portfolio_company sim s c pc) = (has_conflicts c \<or> triggered_rules sim s pc \<noteq> [])"
  "severity (check_portfolio_company sim s c pc) = severity c"
  by (simp_all add: check_portfolio_company_def triggered_rules_def add_conflict_def Let_def)

lemma conflicts_loop_fields:
  "conflict_types (conflicts_loop sim s c pcs) = conflict_types c @ concat (map (triggered_rules sim s) pcs) \<and>
   conflict_companies (conflicts_loop sim s c pcs) =
     conflict_companies c @ concat (map (\<lambda>pc. replicate (length (triggered_rules sim s pc)) (pc_name pc)) pcs) \<and>
   has_conflicts (conflicts_loop sim s c pcs) = (has_conflicts c \<or> concat (map (triggered_rules sim s) pcs) \<noteq> []) \<and>
   severity (conflicts_loop sim s c pcs) = severity c"
  by (induction pcs arbitrary: c) (auto simp: check_portfolio_company_fields)

lemma detect_portfolio_conflicts_lists:
  "conflict_types (detect_portfolio_conflicts sim s pcs) = concat (map (triggered_rules sim s) pcs)"
  "conflict_companies (detect_portfolio_conflicts sim s pcs) =
     concat (map (\<lambda>pc. replicate (length (triggered_rules sim s pc)) (pc_name pc)) pcs)"
  by (simp_all add: detect_portfolio_conflicts_def Let_def conflicts_loop_fields)

lemma detect_portfolio_conflicts_severity:
  "severity (detect_portfolio_conflicts sim s pcs) =
     (if length (conflict_companies (detect_portfolio_conflicts sim s pcs)) > 2 then ''high''
      else if length (conflict_companies (detect_portfolio_conflicts sim s pcs)) > 0 then ''medium''
      else ''none'')"
proof -
  define L where "L = conflicts_loop sim s
     \<lparr>has_conflicts = False, conflict_companies = [], conflict_types = [], severity = ''none''\<rparr> pcs"
  have d: "detect_portfolio_conflicts sim s pcs =
      (if length (conflict_companies L) > 2 then L\<lparr>severity := ''high''\<rparr>
       else if length (conflict_companies L) > 0 then L\<lparr>severity := ''medium''\<rparr> else L)"
    by (simp add: detect_portfolio_conflicts_def L_def Let_def)
  have cc: "conflict_companies (detect_portfolio_conflicts sim s pcs) = conflict_companies L"
    by (simp add: d)
  have sv: "severity L = ''none''"
    by (simp add: L_def conflicts_loop_fields)
  show ?thesis
    unfolding cc by (simp add: d sv)
qed

text \<open>
  C5. For every candidate startup and resolved portfolio list, each portfolio company is
  appended to \<open>conflict_companies\<close> (and its rule to \<open>conflict_types\<close>) once per rule it
  triggers (name similarity above 0.7, case-insensitive equality of two present industries,
  similarity above 0.6 of two present descriptions), so one company can occur up to three
  times; the severity is "high" exactly when more than 2 entries accumulated, "medium"
  exactly when 1 or 2 did, and "none" exactly when none did.
\<close>

theorem detect_portfolio_conflicts_entries:
  "conflict_types (detect_portfolio_conflicts sim s pcs) = concat (map (triggered_rules sim s) pcs) \<and>
   conflict_companies (detect_portfolio_conflicts sim s pcs) =
     concat (map (\<lambda>pc. replicate (length (triggered_rules sim s pc)) (pc_name pc)) pcs) \<and>
   (severity (detect_portfolio_conflicts sim s pcs) = ''high'') =
     (length (conflict_companies (detect_portfolio_conflicts sim s pcs)) > 2) \<and>
   (severity (detect_portfolio_conflicts sim s pcs) = ''medium'') =
     (1 \<le> length (conflict_companies (detect_portfolio_conflicts sim s pcs)) \<and>
      length (conflict_companies (detect_portfolio_conflicts sim s pcs)) \<le> 2) \<and>
   (severity (detect_portfolio_conflicts sim s pcs) = ''none'') =
     (length (conflict_companies (detect_portfolio_conflicts sim s pcs)) = 0)"
proof -
  define n where "n = length (conflict_companies (detect_portfolio_conflicts sim s pcs))"
  have sev: "severity (detect_portfolio_conflicts sim s pcs) =
      (if n > 2 then ''high'' else if n > 0 then ''medium'' else ''none'')"
    unfolding n_def by (rule detect_portfolio_conflicts_severity)
  have "(severity (detect_portfolio_conflicts sim s pcs) = ''high'') = (n > 2)"
    by (simp add: sev)
  moreover have "(severity (detect_portfolio_conflicts sim s pcs) = ''medium'') = (1 \<le> n \<and> n \<le> 2)"
    by (auto simp: sev)
  moreover have "(severity (detect_portfolio_conflicts sim s pcs) = ''none'') = (n = 0)"
    by (auto simp: sev)
  ultimately show ?thesis
    unfolding n_def by (simp add: detect_portfolio_conflicts_lists)
qed

section \<open>Properties of the result ranker\<close>









text \<open>On startups annotated by the pipeline the ranker never raises.\<close>

lemma startup_result_annotated:
  "\<exists>r. startup_result (annotate_startup sim pcs s) m = Inr r"
  by (simp add: startup_result_def analyze_startup_pros_cons_def annotate_startup_def Let_def
      split: prod.splits)

lemma analysis_loop_annotated:
  assumes "\<And>k s. smap k = Some s \<Longrightarrow> \<exists>s0. s = annotate_startup sim pcs s0"
  shows "\<exists>rs. analysis_loop smap acc ms = Inr rs"
proof (induction ms arbitrary: acc)
  case Nil
  then show ?case by simp
next
  case (Cons m ms)
  show ?case
  proof (cases "smap (startup_id m)")
    case None
    with Cons show ?thesis by simp
  next
    case (Some s)
    with assms obtain s0 where "s = annotate_startup sim pcs s0" by blast
    with startup_result_annotated obtain r where "startup_result s m = Inr r" by blast
    with Some Cons show ?thesis by simp
  qed
qed

lemma create_startup_analysis_annotated:
  "\<exists>rs. create_startup_analysis ms (map (annotate_startup sim pcs) ss) = Inr rs"
proof -
  have h: "\<exists>s0. s = annotate_startup sim pcs s0"
    if "startup_map (map (annotate_startup sim pcs) ss) k = Some s" for k s
  proof -
    from that have "(k, s) \<in> set (rev (map (\<lambda>startup. (c_name (company startup), startup))
        (map (annotate_startup sim pcs) ss)))"
      unfolding startup_map_def by (rule map_of_SomeD)
    then show ?thesis by auto
  qed
  have "\<exists>rs. analysis_loop (startup_map (map (annotate_startup sim pcs) ss)) [] ms = Inr rs"
    by (rule analysis_loop_annotated) (rule h)
  then show ?thesis
    by (auto simp: create_startup_analysis_def)
qed

section \<open>Properties of the quality scorer\<close>






text \<open>
  C7. The years bonus is read off the integers before "year(s)"/"yr(s)", but only below the
  test \<open>'years' in experience_lower or 'yr' in experience_lower\<close>. The text
  "1 year of experience" holds neither "years" nor "yr": the pattern finds the integer 1 in
  it, yet no bonus is added and the experience score is 0, not at least 4.
\<close>

theorem evaluate_experience_singular_year:
  "findall_years (lower ''1 year of experience'') = [''1''] \<and>
   max_list (map int_of_digits (findall_years (lower ''1 year of experience''))) = 1 \<and>
   years_bonus (lower ''1 year of experience'') = 0 \<and>
   evaluate_experience (Some ''1 year of experience'') = 0 \<and>
   years_bonus (lower ''1 years of experience'') = 4 \<and>
   evaluate_experience (Some ''1 years of experience'') = 4"
  by code_simp

text \<open>Below the test, the bonus is the tier of the largest integer found.\<close>

lemma years_bonus_tiers:
  assumes "contains e ''years'' \<or> contains e ''yr''"
    and "findall_years e \<noteq> []"
  shows "years_bonus e =
           (let n = max_list (map int_of_digits (findall_years e))
            in if n \<ge> 10 then 15 else if n \<ge> 5 then 12 else if n \<ge> 3 then 8
               else if n \<ge> 1 then 4 else 0)"
  using assms by (simp add: years_bonus_def Let_def)

section \<open>Properties of the fit metrics\<close>

text \<open>
  Over the reals the cosine lies in [-1, 1] (Cauchy-Schwarz), so the text similarity lies
  in [-100, 100]; the rule-based sub-scores of the calculators lie in [0, 100].
\<close>

lemma dot_self_nonneg: "0 \<le> dot x x"
  unfolding dot_def by (induction x) (simp_all add: add_nonneg_nonneg)

lemma dot_Cons: "dot (a # x) (b # y) = a * b + dot x y"
  by (simp add: dot_def)

lemma cs_step:
  fixes a b S A B :: real
  assumes "S\<^sup>2 \<le> A * B" "0 \<le> A" "0 \<le> B"
  shows "(a * b + S)\<^sup>2 \<le> (a * a + A) * (b * b + B)"
proof -
  have "\<bar>S\<bar> \<le> sqrt (A * B)"
    using assms(1) real_le_rsqrt by (metis abs_le_square_iff real_sqrt_abs real_sqrt_le_iff real_sqrt_ge_0_iff abs_of_nonneg mult_nonneg_nonneg assms(2,3) real_sqrt_pow2)
  then have s: "\<bar>S\<bar> \<le> sqrt A * sqrt B"
    by (simp add: real_sqrt_mult)
  have "0 \<le> (\<bar>a\<bar> * sqrt B - \<bar>b\<bar> * sqrt A)\<^sup>2" by simp
  then have "2 * (\<bar>a\<bar> * \<bar>b\<bar>) * (sqrt A * sqrt B) \<le> a * a * B + b * b * A"
    using assms(2,3) by (simp add: power2_eq_square algebra_simps) 
  moreover have "2 * (a * b) * S \<le> 2 * (\<bar>a\<bar> * \<bar>b\<bar>) * \<bar>S\<bar>"
    by (metis abs_ge_self abs_mult abs_numeral)
  moreover have "2 * (\<bar>a\<bar> * \<bar>b\<bar>) * \<bar>S\<bar> \<le> 2 * (\<bar>a\<bar> * \<bar>b\<bar>) * (sqrt A * sqrt B)"
    using s by (simp add: mult_left_mono)
  ultimately have "2 * (a * b) * S \<le> a * a * B + b * b * A" by linarith
  with assms(1) show ?thesis
    by (simp add: power2_eq_square algebra_simps)
qed

lemma cauchy_schwarz:
  "length x = length y \<Longrightarrow> (dot x y)\<^sup>2 \<le> dot x x * dot y y"
proof (induction x y rule: list_induct2)
  case Nil
  then show ?case by (simp add: dot_def)
next
  case (Cons a x b y)
  then show ?case
    by (simp add: dot_Cons cs_step dot_self_nonneg)
qed

lemma dot_scaled: "dot (map (\<lambda>a. a / c) x) (map (\<lambda>b. b / d) y) = dot x y / (c * d)"
proof (induction x arbitrary: y)
  case Nil
  then show ?case by (simp add: dot_def)
next
  case (Cons a x)
  show ?case
  proof (cases y)
    case Nil
    then show ?thesis by (simp add: dot_def)
  next
    case (Cons b y')
    with Cons.IH [of y'] show ?thesis
      by (simp add: dot_Cons add_divide_distrib)
  qed
qed

lemma cosine_similarity_bounds:
  assumes "cosine_similarity x y = Inr c"
  shows "\<bar>c\<bar> \<le> 1"
proof -
  from assms have len: "length x = length y"
    and c: "c = dot (normalize x) (normalize y)"
    by (auto simp: cosine_similarity_def split: if_splits)
  define nx where "nx = sqrt (dot x x)"
  define ny where "ny = sqrt (dot y y)"
  have n0: "0 \<le> nx" "0 \<le> ny"
    by (simp_all add: nx_def ny_def dot_self_nonneg)
  have "\<bar>dot x y\<bar> = sqrt ((dot x y)\<^sup>2)" by simp
  also have "\<dots> \<le> sqrt (dot x x * dot y y)"
    using cauchy_schwarz [OF len] by (rule real_sqrt_le_mono)
  finally have cs: "\<bar>dot x y\<bar> \<le> nx * ny"
    by (simp add: nx_def ny_def real_sqrt_mult)
  have ceq: "c = dot x y / ((if nx = 0 then 1 else nx) * (if ny = 0 then 1 else ny))"
    by (simp add: c normalize_def Let_def dot_scaled nx_def ny_def)
  show ?thesis
  proof (cases "nx = 0 \<or> ny = 0")
    case True
    with cs have "dot x y = 0" by auto
    then show ?thesis by (simp add: ceq)
  next
    case False
    with n0 have pos: "0 < nx * ny" by simp
    from False have "c = dot x y / (nx * ny)" by (simp add: ceq)
    then have "\<bar>c\<bar> = \<bar>dot x y\<bar> / (nx * ny)"
      using n0 by (simp add: abs_mult)
    also have "\<dots> \<le> 1"
      using cs pos by simp
    finally show ?thesis .
  qed
qed

lemma calculate_text_similarity_bounds:
  "\<bar>calculate_text_similarity_optimized model s v\<bar> \<le> 100"
  "\<bar>calculate_text_similarity model s vc\<bar> \<le> 100"
proof -
  have b: "\<bar>case cosine_similarity x y of Inl e \<Rightarrow> 0 | Inr similarity \<Rightarrow> similarity * 100\<bar> \<le> 100" for x y
    using cosine_similarity_bounds [of x y] by (auto split: sum.splits)
  show "\<bar>calculate_text_similarity_optimized model s v\<bar> \<le> 100"
    by (simp add: calculate_text_similarity_optimized_def Let_def b)
  show "\<bar>calculate_text_similarity model s vc\<bar> \<le> 100"
    using b by (simp add: calculate_text_similarity_def Let_def split: option.splits)
qed

lemma add_matches_nonneg: "0 \<le> points \<Longrightarrow> 0 \<le> score \<Longrightarrow> 0 \<le> add_matches points ks t score"
  by (induction ks arbitrary: score) simp_all

lemma founder_network_score_nonneg: "0 \<le> founder_network_score f"
proof -
  have "0 \<le> evaluate_experience_fast e" for e
    by (simp add: evaluate_experience_fast_def add_matches_nonneg)
  then show ?thesis
    by (auto simp: founder_network_score_def Let_def split: option.splits intro: add_nonneg_nonneg)
qed

lemma network_loop_nonneg: "0 \<le> acc \<Longrightarrow> 0 \<le> network_loop acc fs"
  by (induction fs arbitrary: acc) (simp_all add: founder_network_score_nonneg)

lemma rule_based_scores_in_range:
  "in_range (calculate_industry_alignment ws s vc)"
  "in_range (calculate_stage_alignment s vc)"
  "in_range (calculate_industry_alignment_optimized s vc)"
  "in_range (calculate_stage_alignment_optimized s vc)"
  "in_range (calculate_geographic_alignment_optimized s vc)"
  "in_range (calculate_network_proximity_optimized s)"
proof -
  show "in_range (calculate_industry_alignment ws s vc)"
    by (simp add: calculate_industry_alignment_def in_range_def Let_def)
  have "in_range (stage_loop n vs)" for n vs
    by (induction vs) (simp_all add: in_range_def Let_def)
  then show "in_range (calculate_stage_alignment s vc)"
    by (simp add: calculate_stage_alignment_def Let_def) (simp add: in_range_def)
  show "in_range (calculate_industry_alignment_optimized s vc)"
    by (simp add: calculate_industry_alignment_optimized_def in_range_def Let_def)
  have "in_range (stage_loop_optimized n vs)" for n vs
    by (induction vs) (simp_all add: in_range_def)
  then show "in_range (calculate_stage_alignment_optimized s vc)"
    by (simp add: calculate_stage_alignment_optimized_def Let_def) (simp add: in_range_def)
  show "in_range (calculate_geographic_alignment_optimized s vc)"
    by (simp add: calculate_geographic_alignment_optimized_def in_range_def Let_def)
  show "in_range (calculate_network_proximity_optimized s)"
    by (simp add: calculate_network_proximity_optimized_def in_range_def network_loop_nonneg)
qed

text \<open>
  C1. The text similarity is 100 times the cosine of the two embeddings and is not clamped.
  For two opposite vectors the cosine is -1, so both calculators return -100, below the
  range [0, 100] that the comment in the source and the fields of \<open>FitMetrics\<close> announce.
\<close>

theorem calculate_text_similarity_negative:
  "calculate_text_similarity_optimized opposed_model seed_startup [- 1] = - 100 \<and>
   calculate_text_similarity opposed_model seed_startup (demo_vc [] []) = - 100 \<and>
   \<not> in_range (calculate_text_similarity_optimized opposed_model seed_startup [- 1]) \<and>
   \<not> in_range (calculate_text_similarity opposed_model seed_startup (demo_vc [] []))"
proof -
  have a: "calculate_text_similarity_optimized opposed_model seed_startup [- 1] = - 100"
    by (simp add: calculate_text_similarity_optimized_def opposed_model_def seed_startup_def
        prepare_startup_text_optimized_def get_text_embedding_def text_part_def truthy_def
        text_of_def join_space_def cosine_similarity_def normalize_def dot_def Let_def)
  have b: "calculate_text_similarity opposed_model seed_startup (demo_vc [] []) = - 100"
    by (simp add: calculate_text_similarity_def opposed_model_def seed_startup_def demo_vc_def
        prepare_startup_text_def prepare_vc_text_def text_part_def truthy_def text_of_def
        join_space_def cosine_similarity_def normalize_def dot_def Let_def)
  show ?thesis
    by (simp add: a b in_range_def)
qed

text \<open>What the loop over the VC's stages computes: the first stage within two steps decides.\<close>

lemma stage_loop_find:
  "stage_loop n vs =
     (case find (\<lambda>v. \<bar>n - stage_hierarchy v\<bar> \<le> 2) vs of
        None \<Rightarrow> 0
      | Some v \<Rightarrow> if \<bar>n - stage_hierarchy v\<bar> \<le> 1 then 75 else 50)"
  by (induction vs) (auto simp: Let_def)

text \<open>
  C3. A seed startup (ordinal 2) against a VC that lists series-b (4) before series-a (3):
  no exact match, and series-a is one step away, so the alignment should be 75. The loop
  returns 50 at series-b, which it meets first; with the two stages in the other order
  it returns 75.
\<close>

theorem calculate_stage_alignment_order:
  "calculate_stage_alignment seed_startup (demo_vc [] [''Series-B'', ''Series-A'']) = 50 \<and>
   calculate_stage_alignment seed_startup (demo_vc [] [''Series-A'', ''Series-B'']) = 75 \<and>
   \<bar>stage_hierarchy ''seed'' - stage_hierarchy ''series-a''\<bar> = 1"
  by code_simp

text \<open>
  C8. With a present (non-empty) industry, the industry alignment of either calculator is
  100 exactly when the lower-cased industry equals some lower-cased focus area; with a
  missing or empty industry, or an empty focus-area list, it is 0.
\<close>

theorem calculate_industry_alignment_exact:
  "(truthy (c_industry (company s)) \<longrightarrow>
      (calculate_industry_alignment ws s vc = 100) =
        (lower (text_of (c_industry (company s))) \<in> set (map lower (vc_focus_areas vc))) \<and>
      (calculate_industry_alignment_optimized s vc = 100) =
        (lower (text_of (c_industry (company s))) \<in> set (map lower (vc_focus_areas vc)))) \<and>
   (\<not> truthy (c_industry (company s)) \<or> vc_focus_areas vc = [] \<longrightarrow>
      calculate_industry_alignment ws s vc = 0 \<and> calculate_industry_alignment_optimized s vc = 0)"
  by (auto simp: calculate_industry_alignment_def calculate_industry_alignment_optimized_def Let_def
      truthy_def falsy_def split: option.splits)

theorem calculate_industry_alignment_exact_witness:
  "calculate_industry_alignment (\<lambda>a b. 0) seed_startup (demo_vc [''AI/ML'', ''FinTech''] []) = 100 \<and>
   calculate_industry_alignment_optimized seed_startup (demo_vc [''AI/ML'', ''FinTech''] []) = 100 \<and>
   calculate_industry_alignment (\<lambda>a b. 0) seed_startup (demo_vc [''AI/ML'', ''Financial''] []) \<noteq> 100 \<and>
   calculate_industry_alignment (\<lambda>a b. 0) (demo_startup None) (demo_vc [''AI/ML''] []) = 0 \<and>
   calculate_industry_alignment_optimized seed_startup (demo_vc [] []) = 0"
proof -
  have t: "truthy (c_industry (company seed_startup))"
    "\<not> truthy (c_industry (company (demo_startup None)))"
    by (simp_all add: truthy_def seed_startup_def demo_startup_def demo_company_def)
  have m: "lower (text_of (c_industry (company seed_startup))) \<in>
             set (map lower (vc_focus_areas (demo_vc [''AI/ML'', ''FinTech''] [])))"
    "lower (text_of (c_industry (company seed_startup))) \<notin>
             set (map lower (vc_focus_areas (demo_vc [''AI/ML'', ''Financial''] [])))"
    by code_simp+
  have e: "vc_focus_areas (demo_vc [] []) = []"
    by (simp add: demo_vc_def)
  show ?thesis
    using calculate_industry_alignment_exact [of seed_startup "\<lambda>a b. 0" "demo_vc [''AI/ML'', ''FinTech''] []"]
      calculate_industry_alignment_exact [of seed_startup "\<lambda>a b. 0" "demo_vc [''AI/ML'', ''Financial''] []"]
      calculate_industry_alignment_exact [of "demo_startup None" "\<lambda>a b. 0" "demo_vc [''AI/ML''] []"]
      calculate_industry_alignment_exact [of seed_startup "\<lambda>a b. 0" "demo_vc [] []"]
      t m e
    by simp
qed

lemma batch_loop_scored:
  "batch_loop score results startups = Inr (results @ scored_ok score startups)"
  by (induction startups arbitrary: results)
     (auto simp: scored_ok_def try_except_def split: sum.splits)

text \<open>
  C9. The batch calculation always returns: an exception raised while one startup is
  scored is caught, that startup adds nothing to the list, and the loop goes on. The list
  returned holds exactly the metrics of the startups scored without an exception, in
  input order.
\<close>

theorem calculate_fit_metrics_batch_skips_failures:
  "calculate_fit_metrics_batch model cache startups vc =
     Inr (scored_ok (\<lambda>startup. calculate_single_fit_metrics model startup vc
                                 (fst (get_vc_embedding model cache vc))) startups,
          snd (get_vc_embedding model cache vc))"
  by (simp add: calculate_fit_metrics_batch_def batch_loop_scored split: prod.splits)

text \<open>
  Three startups, two of them with a text similarity of -100 that \<open>FitMetrics\<close> rejects:
  the batch returns the metrics of the one in the middle.
\<close>

theorem calculate_fit_metrics_batch_skips_failures_witness:
  "calculate_single_fit_metrics opposed_model seed_startup (demo_vc [''Travel''] [''Seed'']) [- 1] =
     Inl ValidationError \<and>
   (case calculate_fit_metrics_batch opposed_model Map.empty
           [seed_startup, beta_startup, seed_startup] (demo_vc [''Travel''] [''Seed'']) of
      Inl err \<Rightarrow> []
    | Inr (ms, c) \<Rightarrow> map startup_id ms) = [''Beta'']"
proof -
  have e: "fst (get_vc_embedding opposed_model Map.empty (demo_vc [''Travel''] [''Seed''])) = [- 1]"
    by (simp add: get_vc_embedding_def get_text_embedding_def opposed_model_def demo_vc_def
        prepare_vc_text_optimized_def text_part_def truthy_def text_of_def join_space_def Let_def)
  have t1: "calculate_text_similarity_optimized opposed_model seed_startup [- 1] = - 100"
    by (simp add: calculate_text_similarity_optimized_def opposed_model_def seed_startup_def
        prepare_startup_text_optimized_def get_text_embedding_def text_part_def truthy_def
        text_of_def join_space_def cosine_similarity_def normalize_def dot_def Let_def)
  have t2: "calculate_text_similarity_optimized opposed_model beta_startup [- 1] = 100"
    by (simp add: calculate_text_similarity_optimized_def opposed_model_def beta_startup_def
        prepare_startup_text_optimized_def get_text_embedding_def text_part_def truthy_def
        text_of_def join_space_def cosine_similarity_def normalize_def dot_def Let_def)
  have o: "calculate_industry_alignment_optimized beta_startup (demo_vc [''Travel''] [''Seed'']) = 100"
    "calculate_stage_alignment_optimized beta_startup (demo_vc [''Travel''] [''Seed'']) = 100"
    "calculate_geographic_alignment_optimized beta_startup (demo_vc [''Travel''] [''Seed'']) = 75"
    "calculate_network_proximity_optimized beta_startup = 0"
    "calculate_overall_score 100 100 100 75 0 = 81.25"
    "c_name (company beta_startup) = ''Beta''"
    by code_simp+
  have s1: "calculate_single_fit_metrics opposed_model seed_startup (demo_vc [''Travel''] [''Seed'']) [- 1] =
      Inl ValidationError"
    by (simp add: calculate_single_fit_metrics_def t1 new_FitMetrics_def in_range_def Let_def)
  have s2: "calculate_single_fit_metrics opposed_model beta_startup (demo_vc [''Travel''] [''Seed'']) [- 1] =
      Inr \<lparr>startup_id = ''Beta'', vc_firm = vc_name (demo_vc [''Travel''] [''Seed'']),
           overall_score = 81.25, text_similarity = 100, industry_alignment = 100,
           stage_alignment = 100, geographic_alignment = 75, network_proximity = 0\<rparr>"
    by (simp add: calculate_single_fit_metrics_def t2 o new_FitMetrics_def in_range_def Let_def)
  show ?thesis
    using calculate_fit_metrics_batch_skips_failures
      [of opposed_model Map.empty "[seed_startup, beta_startup, seed_startup]"
          "demo_vc [''Travel''] [''Seed'']"]
    by (simp add: e s1 s2 scored_ok_def)
qed

end
